theory Spec2Isabelle
  imports Complex_Main "HOL-Library.Multiset"
begin

section \<open>PanicTrader backtester and parameter fuzzer\<close>

text \<open>
  A shallow embedding of the two backtest engines of the repository and of the parameter
  fuzzer of \<^verbatim>\<open>try2/src/FuzzerMain.cpp\<close>:
  \<^item> \<^verbatim>\<open>try2/src/Backtester.cpp\<close>: \<open>mean_of_last_N\<close> and \<open>runBacktest\<close>, which
    returns the final cash;
  \<^item> the grid-search program (the file that declares \<open>PriceData\<close>, \<open>BacktestResult\<close> and
    \<open>ParameterSet\<close>): \<open>computeRollingAverage\<close> and its \<open>runBacktest\<close>, named
    \<open>runBacktest_grid\<close> here, which returns the final cash and the total fees.

  Numbers. A C++ \<open>double\<close> that holds a price, an average, cash or fees is a \<open>real\<close>:
  arithmetic is exact and the bids and asks of the series are finite numbers. The only
  \<open>NaN\<close> the programs make themselves is the \<open>quiet_NaN\<close> of a rolling average that
  is not defined yet (and \<open>0.0 / 0\<close> for a window of size 0), so an average is a
  \<open>dnum\<close>: \<open>NaN\<close> or \<open>Num x\<close>. The program rounds every sum and product; the
  theorems about fees state only what rounding keeps (the sign of a product and that a
  sum does not decrease when a non-negative number is added), not a strict increase.
  A C++ \<open>int\<close> (position, index, window) is an \<open>int\<close>;
  positions stay within 100 and indexes within the length of the series, so nothing in
  the model depends on wrap-around.
\<close>

subsection \<open>Constants\<close>

definition HIGH_SPREAD_THRESHOLD :: real where
  "HIGH_SPREAD_THRESHOLD = 13 / 10"

definition POSITION_SIZE :: int where
  "POSITION_SIZE = 100"

definition FEES :: real where
  "FEES = 2 / 1000"

definition POSITION_LIMIT :: int where
  "POSITION_LIMIT = 100"

text \<open>The grid-search program declares the fee rate and the limit inside its \<open>runBacktest\<close>.\<close>

definition fees_rate :: real where
  "fees_rate = 2 / 1000"

definition position_limit :: int where
  "position_limit = 100"

subsection \<open>Rolling averages\<close>

datatype dnum = NaN | Num real

fun isnan :: "dnum \<Rightarrow> bool" where
  "isnan NaN = True"
| "isnan (Num x) = False"

text \<open>
  The summation loop of both averages: \<open>for (i = lo; i < hi; i++) sum += arr[i]\<close>, the running sum being \<open>s\<close>.
  A \<open>std::vector\<close> read outside \<open>0 .. size - 1\<close> is undefined behaviour in C++; the
  loop returns \<open>None\<close> there.
\<close>

function sum_loop :: "real list \<Rightarrow> int \<Rightarrow> int \<Rightarrow> real \<Rightarrow> real option" where
  "sum_loop arr i hi s =
     (if i < hi then
        (if 0 \<le> i \<and> i < int (length arr)
         then sum_loop arr (i + 1) hi (s + arr ! nat i)
         else None)
      else Some s)"
  by pat_completeness auto
termination
  by (relation "measure (\<lambda>(arr, i, hi, s). nat (hi - i))") auto

declare sum_loop.simps [simp del]

text \<open>\<open>sum / N\<close> on doubles where \<open>N\<close> is an \<open>int\<close>: the loops leave \<open>sum = 0.0\<close> when
  \<open>N = 0\<close>, and \<open>0.0 / 0\<close> is \<open>NaN\<close>.\<close>

definition div_int :: "real \<Rightarrow> int \<Rightarrow> dnum" where
  "div_int s N = (if N = 0 then NaN else Num (s / real_of_int N))"

text \<open>\<^verbatim>\<open>Backtester.cpp\<close>, \<open>mean_of_last_N\<close>: sums \<open>arr[sz - N .. sz - 1]\<close> and divides by
  \<open>N\<close>. There is no check of \<open>N\<close> against the size in the function itself.\<close>

definition mean_of_last_N :: "real list \<Rightarrow> int \<Rightarrow> dnum option" where
  "mean_of_last_N arr N =
     (let sz = int (length arr) in
      case sum_loop arr (sz - N) sz 0 of
        None \<Rightarrow> None
      | Some s \<Rightarrow> Some (div_int s N))"

text \<open>
  \<^verbatim>\<open>Backtester.cpp\<close>, \<open>runBacktest\<close>, the rolling-average query made at each tick:
  \<^verbatim>\<open>
  double s_avg = quiet_NaN();
  if ((int)mid_price.size() >= short_window) s_avg = mean_of_last_N(mid_price, short_window);
  \<close>
  Under the size test \<open>mean_of_last_N\<close> reads inside the vector
  (lemma \<open>mean_of_last_N_in_bounds\<close>), so the \<open>None\<close> case below is never taken.
\<close>

definition rolling_mean :: "real list \<Rightarrow> int \<Rightarrow> dnum" where
  "rolling_mean mid_price window =
     (if int (length mid_price) \<ge> window
      then (case mean_of_last_N mid_price window of Some avg \<Rightarrow> avg | None \<Rightarrow> NaN)
      else NaN)"

text \<open>The grid-search program, \<open>computeRollingAverage\<close>: the window ends at \<open>endIndex\<close>
  (inclusive) of a vector that was allocated for the whole series.\<close>

definition computeRollingAverage :: "real list \<Rightarrow> int \<Rightarrow> int \<Rightarrow> dnum option" where
  "computeRollingAverage midPrices endIndex windowSize =
     (let startIndex = endIndex - windowSize + 1 in
      if startIndex < 0 then Some NaN
      else case sum_loop midPrices startIndex (endIndex + 1) 0 of
             None \<Rightarrow> None
           | Some s \<Rightarrow> Some (div_int s windowSize))"

subsection \<open>Strategy state\<close>

text \<open>
  Both engines keep the same strategy variables as locals of \<open>runBacktest\<close>; each adds
  its own position, history and bookkeeping. \<open>cash\<close> is common to both.
\<close>

record strategy =
  in_position :: bool
  position_is_long :: bool
  current_position_extreme :: real
  waiting_for_signal :: bool
  high_spread_exit_index :: int
  cash :: real

text \<open>The three assignments that follow every close order in both programs.\<close>

definition close_state :: "'a strategy_scheme \<Rightarrow> 'a strategy_scheme" where
  "close_state st =
     st\<lparr>in_position := False, position_is_long := False, current_position_extreme := 0\<rparr>"

text \<open>
  Check 0 of both programs (``if in a position, check whether the short average turned
  from its extreme''), for a short average that is a number. The text of the two
  programs differs only in the name of the position variable, which is an argument here.
  The result is the order quantity (0 when the check does not fire) and the new state.
\<close>

definition turn_check ::
  "real \<Rightarrow> real \<Rightarrow> int \<Rightarrow> 'a strategy_scheme \<Rightarrow> int \<times> 'a strategy_scheme" where
  "turn_check ma_turn_threshold s_avg position st =
     (if in_position st then
        (if position_is_long st then
           (if s_avg > current_position_extreme st
            then (0, st\<lparr>current_position_extreme := s_avg\<rparr>)
            else if current_position_extreme st - s_avg \<ge> ma_turn_threshold
            then (- position, close_state st)
            else (0, st))
         else
           (if s_avg < current_position_extreme st
            then (0, st\<lparr>current_position_extreme := s_avg\<rparr>)
            else if s_avg - current_position_extreme st \<ge> ma_turn_threshold
            then (- position, close_state st)
            else (0, st)))
      else (0, st))"

subsection \<open>The engine of \<^verbatim>\<open>try2/src/Backtester.cpp\<close>\<close>

text \<open>
  Of the ten history vectors of \<open>runBacktest\<close> the model keeps the three that are read
  for a decision: \<open>timestamp\<close> (its size and emptiness), \<open>mid_price\<close> (the rolling
  average) and \<open>in_high_spread\<close> (its last element). The others, the long average and
  \<open>trade_p\<close> (computed from \<open>position_log\<close> and pushed to \<open>trade_profit\<close>) are only
  written.
\<close>

record bt_state = strategy +
  timestamp :: "int list"
  mid_price :: "real list"
  in_high_spread :: "bool list"
  last_high_spread_exit_savg :: real
  pos :: int

definition bt_init :: bt_state where
  "bt_init =
     \<lparr>in_position = False, position_is_long = False, current_position_extreme = 0,
      waiting_for_signal = False, high_spread_exit_index = - 1, cash = 0,
      timestamp = [], mid_price = [], in_high_spread = [],
      last_high_spread_exit_savg = 0, pos = 0\<rparr>"

text \<open>Checks 1 to 3, one \<open>if / else if / else if\<close> chain: just left high spread; waited
  long enough, so look for an entry; in high spread with a position, so close.\<close>

definition bt_signals ::
  "int \<Rightarrow> real \<Rightarrow> bool \<Rightarrow> real \<Rightarrow> dnum \<Rightarrow> int \<Rightarrow> bt_state \<Rightarrow> int \<times> bt_state" where
  "bt_signals waiting_period hs_exit_change_threshold hs m s_avg order_quantity st =
     (if timestamp st \<noteq> [] \<and> last (in_high_spread st) \<and> \<not> hs then
        (order_quantity,
         st\<lparr>high_spread_exit_index := int (length (timestamp st)) - 1,
            last_high_spread_exit_savg := (case s_avg of Num s \<Rightarrow> s | NaN \<Rightarrow> m),
            waiting_for_signal := True\<rparr>)
      else if waiting_for_signal st
              \<and> int (length (timestamp st)) - high_spread_exit_index st \<ge> waiting_period
              \<and> pos st = 0
              \<and> \<not> hs then
        (case s_avg of
           NaN \<Rightarrow> (order_quantity, st)
         | Num s \<Rightarrow>
             if \<bar>s - last_high_spread_exit_savg st\<bar> \<ge> hs_exit_change_threshold then
               (if m > s then
                  (POSITION_SIZE,
                   st\<lparr>in_position := True, position_is_long := True,
                      current_position_extreme := s, waiting_for_signal := False\<rparr>)
                else if m < s then
                  (- POSITION_SIZE,
                   st\<lparr>in_position := True, position_is_long := False,
                      current_position_extreme := s, waiting_for_signal := False\<rparr>)
                else (order_quantity, st\<lparr>waiting_for_signal := False\<rparr>))
             else (order_quantity, st))
      else if hs \<and> pos st \<noteq> 0 then (- pos st, close_state st)
      else (order_quantity, st))"

text \<open>Check 0 as \<open>runBacktest\<close> guards it: \<open>if (!std::isnan(s_avg) && in_position)\<close>.\<close>

definition bt_turn :: "real \<Rightarrow> dnum \<Rightarrow> bt_state \<Rightarrow> int \<times> bt_state" where
  "bt_turn ma_turn_threshold s_avg st =
     (case s_avg of
        NaN \<Rightarrow> (0, st)
      | Num s \<Rightarrow> turn_check ma_turn_threshold s (pos st) st)"

text \<open>The decision part of one iteration of the main loop: from the bid and ask of the
  tick to \<open>order_quantity\<close> and the new strategy state.\<close>

definition bt_decide ::
  "int \<Rightarrow> int \<Rightarrow> real \<Rightarrow> real \<Rightarrow> real \<Rightarrow> real \<Rightarrow> bt_state \<Rightarrow> int \<times> bt_state" where
  "bt_decide short_window waiting_period hs_exit_change_threshold ma_turn_threshold b a st =
     (let m = 0.5 * (b + a);
          spr = a - b;
          hs = (spr \<ge> HIGH_SPREAD_THRESHOLD);
          s_avg = rolling_mean (mid_price st) short_window;
          (order_quantity, st0) = bt_turn ma_turn_threshold s_avg st
      in bt_signals waiting_period hs_exit_change_threshold hs m s_avg order_quantity st0)"

text \<open>``Apply position limits and update cash''.\<close>

definition limit_order :: "int \<Rightarrow> int \<Rightarrow> int" where
  "limit_order p order_quantity =
     (let actual_order = order_quantity;
          actual_order =
            (if actual_order > 0 \<and> p + actual_order > POSITION_LIMIT then 0 else actual_order);
          actual_order =
            (if actual_order < 0 \<and> p + actual_order < - POSITION_LIMIT then 0 else actual_order)
      in actual_order)"

definition bt_fill :: "int \<Rightarrow> real \<Rightarrow> real \<Rightarrow> bt_state \<Rightarrow> bt_state" where
  "bt_fill order_quantity b a st =
     (let actual_order = limit_order (pos st) order_quantity;
          cash' =
            (if actual_order > 0 then cash st - a * real_of_int actual_order * (1 + FEES)
             else if actual_order < 0 then cash st + b * real_of_int (- actual_order) * (1 - FEES)
             else cash st);
          new_pos = pos st + actual_order
      in st\<lparr>cash := cash', pos := new_pos\<rparr>)"

definition update_history :: "int \<Rightarrow> real \<Rightarrow> real \<Rightarrow> bool \<Rightarrow> bt_state \<Rightarrow> bt_state" where
  "update_history t b a hs st =
     st\<lparr>timestamp := timestamp st @ [t],
        mid_price := mid_price st @ [0.5 * (b + a)],
        in_high_spread := in_high_spread st @ [hs]\<rparr>"

definition bt_tick ::
  "int \<Rightarrow> int \<Rightarrow> real \<Rightarrow> real \<Rightarrow> int \<Rightarrow> real \<Rightarrow> real \<Rightarrow> bt_state \<Rightarrow> bt_state" where
  "bt_tick short_window waiting_period hs_exit_change_threshold ma_turn_threshold t b a st =
     (let (order_quantity, st1) =
            bt_decide short_window waiting_period hs_exit_change_threshold ma_turn_threshold
              b a st
      in update_history t b a (a - b \<ge> HIGH_SPREAD_THRESHOLD) (bt_fill order_quantity b a st1))"

text \<open>
  The main loop, cut after \<open>n\<close> iterations: the state with which iteration \<open>n\<close> starts.
  The three vectors are read at the same index; the caller fills them together, one
  element each per row of the CSV file.
\<close>

definition bt_loop ::
  "int \<Rightarrow> int \<Rightarrow> real \<Rightarrow> real \<Rightarrow> int list \<Rightarrow> real list \<Rightarrow> real list \<Rightarrow> nat \<Rightarrow> bt_state" where
  "bt_loop short_window waiting_period hs_exit_change_threshold ma_turn_threshold
      ticks bids asks n =
     foldl (\<lambda>st i. bt_tick short_window waiting_period hs_exit_change_threshold
                      ma_turn_threshold (ticks ! i) (bids ! i) (asks ! i) st)
       bt_init [0..<n]"

text \<open>``Flatten final position'': the cash that \<open>runBacktest\<close> returns. The function
  does not assign \<open>pos\<close> here; the variable is not used again.\<close>

definition bt_flatten :: "real list \<Rightarrow> real list \<Rightarrow> nat \<Rightarrow> bt_state \<Rightarrow> real" where
  "bt_flatten bids asks nrows st =
     (if pos st \<noteq> 0 then
        (let final_bid = bids ! (nrows - 1);
             final_ask = asks ! (nrows - 1)
         in if pos st > 0 then cash st + final_bid * real_of_int (pos st) * (1 - FEES)
            else cash st - final_ask * real_of_int (- pos st) * (1 + FEES))
      else cash st)"

definition runBacktest ::
  "int \<Rightarrow> int \<Rightarrow> real \<Rightarrow> real \<Rightarrow> int list \<Rightarrow> real list \<Rightarrow> real list \<Rightarrow> real" where
  "runBacktest short_window waiting_period hs_exit_change_threshold ma_turn_threshold
      ticks bids asks =
     (let nrows = length ticks in
      if nrows = 0 then 0
      else bt_flatten bids asks nrows
             (bt_loop short_window waiting_period hs_exit_change_threshold ma_turn_threshold
                ticks bids asks nrows))"

subsection \<open>The engine of the grid-search program\<close>

record PriceData =
  Bid :: real
  Ask :: real

record ParameterSet =
  short_window :: int
  waiting_period :: int
  hs_exit_change_threshold :: real
  ma_turn_threshold :: real
  pnl :: real

record BacktestResult =
  result_pnl :: real
  total_fees :: real

record gs_state = strategy +
  last_high_spread_exit_short_avg :: real
  currentPosition :: int
  totalFees :: real
  midPrices :: "real list"
  prev_in_high_spread :: bool

definition gs_init :: "PriceData list \<Rightarrow> gs_state" where
  "gs_init priceData =
     \<lparr>in_position = False, position_is_long = False, current_position_extreme = 0,
      waiting_for_signal = False, high_spread_exit_index = - 1, cash = 0,
      last_high_spread_exit_short_avg = 0, currentPosition = 0, totalFees = 0,
      midPrices = replicate (length priceData) 0, prev_in_high_spread = False\<rparr>"

text \<open>
  Checks 1 to 3 of the grid-search \<open>runBacktest\<close>, three separate \<open>if\<close> statements.
  They run after the \<open>continue\<close> on an undefined average, so \<open>short_avg\<close> is a number
  and the two \<open>isnan\<close> tests inside are false (the baseline is 0.0 or an earlier
  average).
\<close>

definition gs_signals ::
  "ParameterSet \<Rightarrow> int \<Rightarrow> bool \<Rightarrow> real \<Rightarrow> real \<Rightarrow> int \<Rightarrow> gs_state \<Rightarrow> int \<times> gs_state" where
  "gs_signals params i in_hs mid short_avg order_quantity st =
     (let st1 =
            (if prev_in_high_spread st \<and> \<not> in_hs
             then st\<lparr>high_spread_exit_index := i,
                     last_high_spread_exit_short_avg := short_avg,
                     waiting_for_signal := True\<rparr>
             else st);
          st2 = st1\<lparr>prev_in_high_spread := in_hs\<rparr>;
          (order_quantity, st3) =
            (if waiting_for_signal st2 then
               (let diff = i - high_spread_exit_index st2 in
                if diff \<ge> waiting_period params \<and> currentPosition st2 = 0 \<and> \<not> in_hs then
                  (let delta = \<bar>short_avg - last_high_spread_exit_short_avg st2\<bar> in
                   if delta \<ge> hs_exit_change_threshold params then
                     (if mid > short_avg then
                        (POSITION_SIZE,
                         st2\<lparr>in_position := True, position_is_long := True,
                             current_position_extreme := short_avg,
                             waiting_for_signal := False\<rparr>)
                      else if mid < short_avg then
                        (- POSITION_SIZE,
                         st2\<lparr>in_position := True, position_is_long := False,
                             current_position_extreme := short_avg,
                             waiting_for_signal := False\<rparr>)
                      else (order_quantity, st2\<lparr>waiting_for_signal := False\<rparr>))
                   else (order_quantity, st2))
                else (order_quantity, st2))
             else (order_quantity, st2))
      in if in_hs \<and> currentPosition st3 \<noteq> 0
         then (- currentPosition st3, close_state st3)
         else (order_quantity, st3))"

definition gs_decide ::
  "ParameterSet \<Rightarrow> int \<Rightarrow> real \<Rightarrow> real \<Rightarrow> real \<Rightarrow> gs_state \<Rightarrow> int \<times> gs_state" where
  "gs_decide params i bid ask short_avg st =
     (let mid = 0.5 * (bid + ask);
          spread = ask - bid;
          in_hs = (spread \<ge> HIGH_SPREAD_THRESHOLD);
          (order_quantity, st0) =
             turn_check (ma_turn_threshold params) short_avg (currentPosition st) st
      in gs_signals params i in_hs mid short_avg order_quantity st0)"

text \<open>``Process the order'': the limit test, the cash and fee update and the new
  position, all under \<open>if (order_quantity != 0)\<close>.\<close>

definition gs_process_order :: "int \<Rightarrow> real \<Rightarrow> real \<Rightarrow> gs_state \<Rightarrow> gs_state" where
  "gs_process_order order_quantity bid ask st =
     (if order_quantity \<noteq> 0 then
        (if order_quantity > 0 then
           (let oq = (if currentPosition st + order_quantity > position_limit
                      then 0 else order_quantity);
                st1 = (if oq > 0
                       then st\<lparr>cash := cash st - ask * real_of_int oq * (1 + fees_rate),
                               totalFees := totalFees st + ask * real_of_int oq * fees_rate\<rparr>
                       else st)
            in st1\<lparr>currentPosition := currentPosition st1 + oq\<rparr>)
         else
           (let oq = (if currentPosition st + order_quantity < - position_limit
                      then 0 else order_quantity);
                st1 = (if oq < 0
                       then st\<lparr>cash := cash st + bid * real_of_int (- oq) * (1 - fees_rate),
                               totalFees := totalFees st + bid * real_of_int (- oq) * fees_rate\<rparr>
                       else st)
            in st1\<lparr>currentPosition := currentPosition st1 + oq\<rparr>))
      else st)"

text \<open>``Store the current mid price'': \<open>midPrices[i] = mid_price\<close>.\<close>

definition gs_store :: "PriceData list \<Rightarrow> nat \<Rightarrow> gs_state \<Rightarrow> gs_state" where
  "gs_store priceData i st =
     st\<lparr>midPrices := (midPrices st)[i := 0.5 * (Bid (priceData ! i) + Ask (priceData ! i))]\<rparr>"

text \<open>One iteration of the loop. The mid price is stored first; an undefined average
  ends the iteration (\<open>continue\<close>). The index is inside \<open>midPrices\<close>, which has the size
  of the series, so \<open>computeRollingAverage\<close> never reads outside it and the \<open>None\<close>
  case is never taken (lemmas \<open>computeRollingAverage_NaN\<close> and
  \<open>computeRollingAverage_Num\<close>).\<close>

definition gs_tick :: "ParameterSet \<Rightarrow> PriceData list \<Rightarrow> nat \<Rightarrow> gs_state \<Rightarrow> gs_state" where
  "gs_tick params priceData i st =
     (let bid = Bid (priceData ! i);
          ask = Ask (priceData ! i);
          st0 = gs_store priceData i st
      in case computeRollingAverage (midPrices st0) (int i) (short_window params) of
           None \<Rightarrow> st0
         | Some NaN \<Rightarrow> st0
         | Some (Num short_avg) \<Rightarrow>
             (let (order_quantity, st1) = gs_decide params (int i) bid ask short_avg st0
              in gs_process_order order_quantity bid ask st1))"

definition gs_loop :: "ParameterSet \<Rightarrow> PriceData list \<Rightarrow> nat \<Rightarrow> gs_state" where
  "gs_loop params priceData n =
     foldl (\<lambda>st i. gs_tick params priceData i st) (gs_init priceData) [0..<n]"

text \<open>``Final close''.\<close>

definition gs_final_close :: "PriceData list \<Rightarrow> gs_state \<Rightarrow> gs_state" where
  "gs_final_close priceData st =
     (if currentPosition st > 0 then
        (let finalBid = Bid (last priceData) in
         st\<lparr>cash := cash st + finalBid * real_of_int (currentPosition st) * (1 - fees_rate),
            totalFees := totalFees st + finalBid * real_of_int (currentPosition st) * fees_rate,
            currentPosition := 0\<rparr>)
      else if currentPosition st < 0 then
        (let finalAsk = Ask (last priceData) in
         st\<lparr>cash := cash st - finalAsk * real_of_int (- currentPosition st) * (1 + fees_rate),
            totalFees := totalFees st + finalAsk * real_of_int (- currentPosition st) * fees_rate,
            currentPosition := 0\<rparr>)
      else st)"

definition runBacktest_grid :: "PriceData list \<Rightarrow> ParameterSet \<Rightarrow> BacktestResult" where
  "runBacktest_grid priceData params =
     (let st = gs_final_close priceData (gs_loop params priceData (length priceData))
      in \<lparr>result_pnl = cash st, total_fees = totalFees st\<rparr>)"

subsection \<open>The parameter fuzzer of \<^verbatim>\<open>try2/src/FuzzerMain.cpp\<close>\<close>

text \<open>\<open>std::round\<close>: to the nearest integer, halfway cases away from zero.\<close>

definition cpp_round :: "real \<Rightarrow> int" where
  "cpp_round x = (if 0 \<le> x then \<lfloor>x + 1 / 2\<rfloor> else \<lceil>x - 1 / 2\<rceil>)"

definition fuzzIntParam :: "int \<Rightarrow> int list" where
  "fuzzIntParam baseVal =
     sort (map (\<lambda>i. let factor = (100 + real_of_int i) / 100;
                         dval = real_of_int baseVal * factor;
                         iv = cpp_round dval
                     in if iv < 1 then 1 else iv)
               [- 10..10])"

definition fuzzDoubleParam :: "real \<Rightarrow> real list" where
  "fuzzDoubleParam baseVal =
     sort (map (\<lambda>i. let factor = (100 + real_of_int i) / 100;
                         dv = baseVal * factor
                     in if dv \<le> 0 then 1 / 1000000 else dv)
               [- 10..10])"

text \<open>\<open>struct ParamResult\<close> of the fuzzer has the fields of \<open>ParameterSet\<close>.\<close>

type_synonym ParamResult = ParameterSet

text \<open>The four nested loops of \<open>main\<close> that fill \<open>g_combos\<close>.\<close>

definition build_combos ::
  "int list \<Rightarrow> int list \<Rightarrow> real list \<Rightarrow> real list \<Rightarrow> ParamResult list" where
  "build_combos sw_vals wp_vals hsx_vals mat_vals =
     concat (map (\<lambda>sw.
       concat (map (\<lambda>wp.
         concat (map (\<lambda>hsx.
           map (\<lambda>mat. \<lparr>short_window = sw, waiting_period = wp,
                         hs_exit_change_threshold = hsx, ma_turn_threshold = mat,
                         pnl = 0\<rparr>)
               mat_vals)
           hsx_vals))
         wp_vals))
       sw_vals)"

text \<open>\<open>g_combos\<close> as \<open>main\<close> builds it, from the base values 80, 80, 0.2 and 0.9.\<close>

definition g_combos :: "ParamResult list" where
  "g_combos =
     build_combos (fuzzIntParam 80) (fuzzIntParam 80)
       (fuzzDoubleParam (2 / 10)) (fuzzDoubleParam (9 / 10))"

subsection \<open>The sweep of \<^verbatim>\<open>try2/src/FuzzerMain.cpp\<close>\<close>









subsection \<open>Invariants of the two main loops\<close>

text \<open>
  While a position is open the machine is not waiting for a signal and the previous tick
  was not in high spread: an entry happens on a tick outside high spread and clears
  \<open>waiting_for_signal\<close>, and a tick in high spread closes any open position. In the
  grid-search engine an open position also means that the rolling average has been
  defined since the entry.
\<close>

definition bt_inv :: "bt_state \<Rightarrow> bool" where
  "bt_inv st \<longleftrightarrow>
     (pos st \<noteq> 0 \<longrightarrow>
        \<not> waiting_for_signal st \<and> \<not> (timestamp st \<noteq> [] \<and> last (in_high_spread st)))"

definition gs_inv :: "ParameterSet \<Rightarrow> PriceData list \<Rightarrow> nat \<Rightarrow> gs_state \<Rightarrow> bool" where
  "gs_inv params priceData n st \<longleftrightarrow>
     length (midPrices st) = length priceData \<and>
     (currentPosition st \<noteq> 0 \<longrightarrow>
        \<not> waiting_for_signal st \<and> \<not> prev_in_high_spread st \<and>
        short_window params \<noteq> 0 \<and> short_window params \<le> int n)"

subsection \<open>Two small runs\<close>

text \<open>
  A series of five ticks for \<^verbatim>\<open>Backtester.cpp\<close>, run with \<open>short_window = 1\<close>,
  \<open>waiting_period = 1\<close>, \<open>hs_exit_change_threshold = 0.5\<close> and
  \<open>ma_turn_threshold = 100\<close>: tick 0 is in high spread, tick 1 leaves it, tick 3 enters
  short (mid 8 below the average 12), tick 4 is in high spread again.
\<close>

definition ex_ticks :: "int list" where
  "ex_ticks = [0, 1, 2, 3, 4]"

definition ex_bids :: "real list" where
  "ex_bids = [9, 10, 12, 8, 7]"

definition ex_asks :: "real list" where
  "ex_asks = [11, 10, 12, 8, 9]"

text \<open>
  A series of five ticks for the grid-search engine, with a window of 2: tick 1 is in
  high spread, tick 2 leaves it, tick 3 enters short (mid 8 below the average 9), tick 4
  is in high spread again.
\<close>

definition ex_params :: ParameterSet where
  "ex_params =
     \<lparr>short_window = 2, waiting_period = 1, hs_exit_change_threshold = 1 / 2,
      ma_turn_threshold = 100, pnl = 0\<rparr>"

definition ex_series :: "PriceData list" where
  "ex_series =
     [\<lparr>Bid = 10, Ask = 10\<rparr>, \<lparr>Bid = 9, Ask = 11\<rparr>, \<lparr>Bid = 10, Ask = 10\<rparr>,
      \<lparr>Bid = 8, Ask = 8\<rparr>, \<lparr>Bid = 7, Ask = 9\<rparr>]"

text \<open>The first four ticks of each series: the runs end with the short position open.\<close>

definition ex_open_ticks :: "int list" where
  "ex_open_ticks = [0, 1, 2, 3]"

definition ex_open_bids :: "real list" where
  "ex_open_bids = [9, 10, 12, 8]"

definition ex_open_asks :: "real list" where
  "ex_open_asks = [11, 10, 12, 8]"

definition ex_open_series :: "PriceData list" where
  "ex_open_series =
     [\<lparr>Bid = 10, Ask = 10\<rparr>, \<lparr>Bid = 9, Ask = 11\<rparr>, \<lparr>Bid = 10, Ask = 10\<rparr>,
      \<lparr>Bid = 8, Ask = 8\<rparr>]"

text \<open>The same four ticks with a last bid of 0, and with a last bid below 0.\<close>

definition ex_series_zero_bid :: "PriceData list" where
  "ex_series_zero_bid =
     [\<lparr>Bid = 10, Ask = 10\<rparr>, \<lparr>Bid = 9, Ask = 11\<rparr>, \<lparr>Bid = 10, Ask = 10\<rparr>,
      \<lparr>Bid = 0, Ask = 1\<rparr>]"

definition ex_series_negative_bid :: "PriceData list" where
  "ex_series_negative_bid =
     [\<lparr>Bid = 10, Ask = 10\<rparr>, \<lparr>Bid = 9, Ask = 11\<rparr>, \<lparr>Bid = 10, Ask = 10\<rparr>,
      \<lparr>Bid = - 1, Ask = 0\<rparr>]"


subsection \<open>The summation loop\<close>

lemma sum_loop_done: "hi \<le> i \<Longrightarrow> sum_loop arr i hi s = Some s"
  by (simp add: sum_loop.simps)

lemma sum_loop_step:
  "i < hi \<Longrightarrow> 0 \<le> i \<Longrightarrow> i < int (length arr) \<Longrightarrow>
   sum_loop arr i hi s = sum_loop arr (i + 1) hi (s + arr ! nat i)"
  by (subst sum_loop.simps) simp

lemma sum_loop_sum_list:
  "0 \<le> i \<Longrightarrow> i \<le> hi \<Longrightarrow> hi \<le> int (length arr) \<Longrightarrow>
   sum_loop arr i hi s = Some (s + sum_list (take (nat (hi - i)) (drop (nat i) arr)))"
proof (induction arr i hi s rule: sum_loop.induct)
  case (1 arr i hi s)
  show ?case
  proof (cases "i < hi")
    case False
    with "1.prems" have "i = hi" by simp
    then show ?thesis by (simp add: sum_loop_done)
  next
    case True
    with "1.prems" have inb: "0 \<le> i" "i < int (length arr)" by auto
    have n: "nat i < length arr" using inb by linarith
    have step: "sum_loop arr i hi s = sum_loop arr (i + 1) hi (s + arr ! nat i)"
      using True inb by (rule sum_loop_step)
    have ih: "sum_loop arr (i + 1) hi (s + arr ! nat i) =
        Some (s + arr ! nat i + sum_list (take (nat (hi - (i + 1))) (drop (nat (i + 1)) arr)))"
      using "1.IH" [OF True] inb True "1.prems" by simp
    have d: "drop (nat i) arr = arr ! nat i # drop (nat (i + 1)) arr"
      using n inb by (simp add: Cons_nth_drop_Suc nat_add_distrib)
    have t: "nat (hi - i) = Suc (nat (hi - (i + 1)))"
      using True by linarith
    show ?thesis
      unfolding step ih d t by simp
  qed
qed

lemma mean_of_last_N_in_bounds:
  "N \<le> int (length arr) \<Longrightarrow> mean_of_last_N arr N \<noteq> None"
proof (cases "0 \<le> N")
  case True
  assume "N \<le> int (length arr)"
  with True show ?thesis
    by (simp add: mean_of_last_N_def Let_def sum_loop_sum_list)
next
  case False
  then show ?thesis
    by (simp add: mean_of_last_N_def Let_def sum_loop_done)
qed

lemma rolling_mean_eq:
  assumes "0 < w"
  shows "rolling_mean history w =
     (if int (length history) < w then NaN
      else Num (sum_list (drop (length history - nat w) history) / real_of_int w))"
proof (cases "int (length history) < w")
  case True
  then show ?thesis by (simp add: rolling_mean_def)
next
  case False
  then have le: "w \<le> int (length history)" by simp
  have "sum_loop history (int (length history) - w) (int (length history)) 0 =
      Some (0 + sum_list (take (nat (int (length history) - (int (length history) - w)))
         (drop (nat (int (length history) - w)) history)))"
    using assms le by (intro sum_loop_sum_list) auto
  moreover have "nat (int (length history) - w) = length history - nat w"
    using assms le by linarith
  ultimately have "sum_loop history (int (length history) - w) (int (length history)) 0 =
      Some (sum_list (drop (length history - nat w) history))"
    using assms le by simp
  then show ?thesis
    using assms le by (simp add: rolling_mean_def mean_of_last_N_def div_int_def)
qed

lemma computeRollingAverage_eq:
  assumes "0 < w" and "e < length mids"
  shows "computeRollingAverage mids (int e) w =
     Some (if int (length (take (Suc e) mids)) < w then NaN
           else Num (sum_list (drop (length (take (Suc e) mids) - nat w) (take (Suc e) mids))
                      / real_of_int w))"
proof (cases "int e + 1 < w")
  case True
  then show ?thesis using assms by (simp add: computeRollingAverage_def min_def)
next
  case False
  then have le: "w \<le> int e + 1" by simp
  have len: "length (take (Suc e) mids) = Suc e" using assms by simp
  have "sum_loop mids (int e - w + 1) (int e + 1) 0 =
      Some (0 + sum_list (take (nat (int e + 1 - (int e - w + 1)))
         (drop (nat (int e - w + 1)) mids)))"
    using assms le by (intro sum_loop_sum_list) auto
  moreover have "nat (int e - w + 1) = Suc e - nat w" "nat (int e + 1 - (int e - w + 1)) = nat w"
    using assms le by linarith+
  moreover have "take (nat w) (drop (Suc e - nat w) mids) = drop (Suc e - nat w) (take (Suc e) mids)"
    using assms le by (simp add: drop_take)
  ultimately have "sum_loop mids (int e - w + 1) (int e + 1) 0 =
      Some (sum_list (drop (Suc e - nat w) (take (Suc e) mids)))"
    by simp
  then show ?thesis
    using assms le unfolding len by (simp add: computeRollingAverage_def div_int_def)
qed

subsection \<open>The engine of \<^verbatim>\<open>Backtester.cpp\<close>, step by step\<close>

lemma bt_loop_0: "bt_loop sw wp hsx mat ticks bids asks 0 = bt_init"
  by (simp add: bt_loop_def)

lemma bt_loop_Suc:
  "bt_loop sw wp hsx mat ticks bids asks (Suc n) =
   bt_tick sw wp hsx mat (ticks ! n) (bids ! n) (asks ! n) (bt_loop sw wp hsx mat ticks bids asks n)"
  by (simp add: bt_loop_def)

lemma bt_turn_fields:
  "timestamp (snd (bt_turn mat s_avg st)) = timestamp st"
  "mid_price (snd (bt_turn mat s_avg st)) = mid_price st"
  "in_high_spread (snd (bt_turn mat s_avg st)) = in_high_spread st"
  "pos (snd (bt_turn mat s_avg st)) = pos st"
  "cash (snd (bt_turn mat s_avg st)) = cash st"
  "waiting_for_signal (snd (bt_turn mat s_avg st)) = waiting_for_signal st"
  "high_spread_exit_index (snd (bt_turn mat s_avg st)) = high_spread_exit_index st"
  "last_high_spread_exit_savg (snd (bt_turn mat s_avg st)) = last_high_spread_exit_savg st"
  by (simp_all add: bt_turn_def turn_check_def close_state_def split: dnum.split)

lemma bt_turn_order:
  "fst (bt_turn mat s_avg st) = 0 \<or> fst (bt_turn mat s_avg st) = - pos st"
  by (simp add: bt_turn_def turn_check_def split: dnum.split)

lemma bt_signals_fields:
  "timestamp (snd (bt_signals wp hsx hs m s_avg oq st)) = timestamp st"
  "mid_price (snd (bt_signals wp hsx hs m s_avg oq st)) = mid_price st"
  "in_high_spread (snd (bt_signals wp hsx hs m s_avg oq st)) = in_high_spread st"
  "pos (snd (bt_signals wp hsx hs m s_avg oq st)) = pos st"
  "cash (snd (bt_signals wp hsx hs m s_avg oq st)) = cash st"
  by (simp_all add: bt_signals_def close_state_def split: dnum.split)

lemma bt_decide_fields:
  "timestamp (snd (bt_decide sw wp hsx mat b a st)) = timestamp st"
  "mid_price (snd (bt_decide sw wp hsx mat b a st)) = mid_price st"
  "in_high_spread (snd (bt_decide sw wp hsx mat b a st)) = in_high_spread st"
  "pos (snd (bt_decide sw wp hsx mat b a st)) = pos st"
  "cash (snd (bt_decide sw wp hsx mat b a st)) = cash st"
  by (simp_all add: bt_decide_def Let_def split_beta bt_signals_fields bt_turn_fields)

lemma bt_tick_history:
  "timestamp (bt_tick sw wp hsx mat t b a st) = timestamp st @ [t]"
  "mid_price (bt_tick sw wp hsx mat t b a st) = mid_price st @ [0.5 * (b + a)]"
  "in_high_spread (bt_tick sw wp hsx mat t b a st) = in_high_spread st @ [a - b \<ge> HIGH_SPREAD_THRESHOLD]"
  by (simp_all add: bt_tick_def bt_fill_def update_history_def Let_def split_beta bt_decide_fields)

lemma bt_tick_pos:
  "pos (bt_tick sw wp hsx mat t b a st) = pos st + limit_order (pos st) (fst (bt_decide sw wp hsx mat b a st))"
  by (simp add: bt_tick_def bt_fill_def update_history_def Let_def split_beta bt_decide_fields)

lemma limit_order_bound:
  "\<bar>p\<bar> \<le> POSITION_LIMIT \<Longrightarrow> \<bar>p + limit_order p oq\<bar> \<le> POSITION_LIMIT"
  by (auto simp: limit_order_def Let_def POSITION_LIMIT_def)

lemma bt_loop_pos_bound: "\<bar>pos (bt_loop sw wp hsx mat ticks bids asks n)\<bar> \<le> POSITION_LIMIT"
proof (induction n)
  case 0
  show ?case by (simp add: bt_loop_0 bt_init_def POSITION_LIMIT_def)
next
  case (Suc n)
  then show ?case by (simp add: bt_loop_Suc bt_tick_pos limit_order_bound)
qed


lemma bt_signals_hs:
  "hs \<Longrightarrow> pos st \<noteq> 0 \<Longrightarrow>
   bt_signals wp hsx hs m s_avg oq st = (- pos st, close_state st)"
  by (simp add: bt_signals_def)

lemma bt_signals_quiet:
  "pos st \<noteq> 0 \<Longrightarrow> \<not> hs \<Longrightarrow> \<not> waiting_for_signal st \<Longrightarrow>
   \<not> (timestamp st \<noteq> [] \<and> last (in_high_spread st)) \<Longrightarrow>
   bt_signals wp hsx hs m s_avg oq st = (oq, st)"
  by (auto simp: bt_signals_def)

lemma bt_signals_flat:
  "pos st = 0 \<Longrightarrow>
   fst (bt_signals wp hsx hs m s_avg oq st) = oq \<or>
   (\<bar>fst (bt_signals wp hsx hs m s_avg oq st)\<bar> = POSITION_SIZE \<and> \<not> hs \<and>
    \<not> waiting_for_signal (snd (bt_signals wp hsx hs m s_avg oq st)))"
  by (simp add: bt_signals_def POSITION_SIZE_def split: dnum.split)

lemma limit_order_close: "limit_order p (- p) = - p"
  by (simp add: limit_order_def Let_def POSITION_LIMIT_def)

lemma limit_order_zero: "limit_order p 0 = 0"
  by (simp add: limit_order_def Let_def)

lemma bt_decide_hs:
  assumes "a - b \<ge> HIGH_SPREAD_THRESHOLD" and "pos st \<noteq> 0"
  shows "fst (bt_decide sw wp hsx mat b a st) = - pos st"
    and "\<not> in_position (snd (bt_decide sw wp hsx mat b a st))"
    and "waiting_for_signal (snd (bt_decide sw wp hsx mat b a st)) = waiting_for_signal st"
  using assms
  by (simp_all add: bt_decide_def Let_def split_beta bt_signals_hs bt_turn_fields close_state_def)

lemma bt_decide_quiet:
  assumes "\<not> a - b \<ge> HIGH_SPREAD_THRESHOLD" and "pos st \<noteq> 0" and "bt_inv st"
  shows "fst (bt_decide sw wp hsx mat b a st) = 0 \<or> fst (bt_decide sw wp hsx mat b a st) = - pos st"
    and "\<not> waiting_for_signal (snd (bt_decide sw wp hsx mat b a st))"
  using assms bt_turn_order[of mat "rolling_mean (mid_price st) sw" st]
  by (simp_all add: bt_decide_def Let_def split_beta bt_signals_quiet bt_turn_fields bt_inv_def)

lemma bt_decide_flat:
  assumes "pos st = 0"
  shows "fst (bt_decide sw wp hsx mat b a st) = 0 \<or>
     (\<bar>fst (bt_decide sw wp hsx mat b a st)\<bar> = POSITION_SIZE \<and> \<not> a - b \<ge> HIGH_SPREAD_THRESHOLD \<and>
      \<not> waiting_for_signal (snd (bt_decide sw wp hsx mat b a st)))"
proof -
  let ?s = "rolling_mean (mid_price st) sw"
  have o: "fst (bt_turn mat ?s st) = 0" using bt_turn_order[of mat ?s st] assms by auto
  have p: "pos (snd (bt_turn mat ?s st)) = 0" using assms by (simp add: bt_turn_fields)
  show ?thesis
    using bt_signals_flat[OF p, of wp hsx "a - b \<ge> HIGH_SPREAD_THRESHOLD" "0.5 * (b + a)" ?s "fst (bt_turn mat ?s st)"]
    by (simp add: bt_decide_def Let_def split_beta o)
qed

lemma bt_tick_waiting:
  "waiting_for_signal (bt_tick sw wp hsx mat t b a st) =
   waiting_for_signal (snd (bt_decide sw wp hsx mat b a st))"
  by (simp add: bt_tick_def bt_fill_def update_history_def Let_def split_beta)

lemma bt_tick_inv:
  assumes "bt_inv st"
  shows "bt_inv (bt_tick sw wp hsx mat t b a st)"
proof (cases "pos st = 0")
  case True
  from bt_decide_flat[OF True, of sw wp hsx mat b a]
  show ?thesis
    by (auto simp: bt_inv_def bt_tick_pos bt_tick_waiting bt_tick_history True limit_order_zero)
next
  case False
  show ?thesis
  proof (cases "a - b \<ge> HIGH_SPREAD_THRESHOLD")
    case True
    then show ?thesis
      using False by (simp add: bt_inv_def bt_tick_pos bt_decide_hs limit_order_close)
  next
    case hs: False
    from bt_decide_quiet[OF hs False assms, of sw wp hsx mat]
    show ?thesis
      using hs by (auto simp: bt_inv_def bt_tick_pos bt_tick_waiting bt_tick_history limit_order_zero limit_order_close)
  qed
qed

lemma bt_loop_inv: "bt_inv (bt_loop sw wp hsx mat ticks bids asks n)"
proof (induction n)
  case 0
  show ?case by (simp add: bt_loop_0 bt_inv_def bt_init_def)
next
  case (Suc n)
  then show ?case by (simp add: bt_loop_Suc bt_tick_inv)
qed

subsection \<open>The grid-search engine, step by step\<close>

lemma gs_loop_0: "gs_loop params priceData 0 = gs_init priceData"
  by (simp add: gs_loop_def)

lemma gs_loop_Suc:
  "gs_loop params priceData (Suc n) = gs_tick params priceData n (gs_loop params priceData n)"
  by (simp add: gs_loop_def)

lemma computeRollingAverage_NaN:
  "windowSize = 0 \<or> int e + 1 < windowSize \<Longrightarrow>
   computeRollingAverage mids (int e) windowSize = Some NaN"
  by (auto simp: computeRollingAverage_def div_int_def sum_loop_done)

lemma computeRollingAverage_Num:
  assumes "windowSize \<noteq> 0" and "windowSize \<le> int e + 1" and "e < length mids"
  shows "\<exists>s. computeRollingAverage mids (int e) windowSize = Some (Num s)"
proof (cases "0 < windowSize")
  case True
  then show ?thesis
    using computeRollingAverage_eq[OF True assms(3)] assms by (simp add: min_def)
next
  case False
  then show ?thesis
    using assms by (simp add: computeRollingAverage_def div_int_def sum_loop_done)
qed

lemma gs_turn_fields:
  "midPrices (snd (turn_check mat s p st)) = midPrices st"
  "currentPosition (snd (turn_check mat s p st)) = currentPosition st"
  "cash (snd (turn_check mat s p st)) = cash st"
  "totalFees (snd (turn_check mat s p st)) = totalFees st"
  "waiting_for_signal (snd (turn_check mat s p st)) = waiting_for_signal st"
  "prev_in_high_spread (snd (turn_check mat s p st)) = prev_in_high_spread st"
  by (simp_all add: turn_check_def close_state_def)

lemma turn_check_order:
  "fst (turn_check mat s p st) = 0 \<or> fst (turn_check mat s p st) = - p"
  by (simp add: turn_check_def)

lemma gs_signals_fields:
  "midPrices (snd (gs_signals params i in_hs mid s oq st)) = midPrices st"
  "currentPosition (snd (gs_signals params i in_hs mid s oq st)) = currentPosition st"
  "cash (snd (gs_signals params i in_hs mid s oq st)) = cash st"
  "totalFees (snd (gs_signals params i in_hs mid s oq st)) = totalFees st"
  "prev_in_high_spread (snd (gs_signals params i in_hs mid s oq st)) = in_hs"
  by (simp_all add: gs_signals_def close_state_def Let_def split_beta)

lemma gs_signals_hs:
  "in_hs \<Longrightarrow> currentPosition st \<noteq> 0 \<Longrightarrow>
   gs_signals params i in_hs mid s oq st =
     (- currentPosition st, close_state (st\<lparr>prev_in_high_spread := True\<rparr>))"
  by (simp add: gs_signals_def Let_def)

lemma gs_signals_quiet:
  "currentPosition st \<noteq> 0 \<Longrightarrow> \<not> in_hs \<Longrightarrow> \<not> waiting_for_signal st \<Longrightarrow>
   \<not> prev_in_high_spread st \<Longrightarrow>
   gs_signals params i in_hs mid s oq st = (oq, st\<lparr>prev_in_high_spread := False\<rparr>)"
  by (simp add: gs_signals_def Let_def)

lemma gs_signals_flat:
  "currentPosition st = 0 \<Longrightarrow>
   fst (gs_signals params i in_hs mid s oq st) = oq \<or>
   (\<bar>fst (gs_signals params i in_hs mid s oq st)\<bar> = POSITION_SIZE \<and> \<not> in_hs \<and>
    \<not> waiting_for_signal (snd (gs_signals params i in_hs mid s oq st)))"
  by (auto simp: gs_signals_def Let_def POSITION_SIZE_def)

lemma gs_decide_fields:
  "midPrices (snd (gs_decide params i bid ask s st)) = midPrices st"
  "currentPosition (snd (gs_decide params i bid ask s st)) = currentPosition st"
  "cash (snd (gs_decide params i bid ask s st)) = cash st"
  "totalFees (snd (gs_decide params i bid ask s st)) = totalFees st"
  "prev_in_high_spread (snd (gs_decide params i bid ask s st)) = (ask - bid \<ge> HIGH_SPREAD_THRESHOLD)"
  by (simp_all add: gs_decide_def Let_def split_beta gs_signals_fields gs_turn_fields)

lemma gs_decide_hs:
  assumes "ask - bid \<ge> HIGH_SPREAD_THRESHOLD" and "currentPosition st \<noteq> 0"
  shows "fst (gs_decide params i bid ask s st) = - currentPosition st"
    and "\<not> in_position (snd (gs_decide params i bid ask s st))"
    and "waiting_for_signal (snd (gs_decide params i bid ask s st)) = waiting_for_signal st"
  using assms
  by (simp_all add: gs_decide_def Let_def split_beta gs_signals_hs gs_turn_fields close_state_def)

lemma gs_decide_quiet:
  assumes "\<not> ask - bid \<ge> HIGH_SPREAD_THRESHOLD" and "currentPosition st \<noteq> 0"
    and "\<not> waiting_for_signal st" and "\<not> prev_in_high_spread st"
  shows "fst (gs_decide params i bid ask s st) = 0 \<or>
         fst (gs_decide params i bid ask s st) = - currentPosition st"
    and "\<not> waiting_for_signal (snd (gs_decide params i bid ask s st))"
  using assms turn_check_order[of "ma_turn_threshold params" s "currentPosition st" st]
  by (simp_all add: gs_decide_def Let_def split_beta gs_signals_quiet gs_turn_fields)

lemma gs_decide_flat:
  assumes "currentPosition st = 0"
  shows "fst (gs_decide params i bid ask s st) = 0 \<or>
     (\<bar>fst (gs_decide params i bid ask s st)\<bar> = POSITION_SIZE \<and>
      \<not> ask - bid \<ge> HIGH_SPREAD_THRESHOLD \<and>
      \<not> waiting_for_signal (snd (gs_decide params i bid ask s st)))"
proof -
  let ?t = "turn_check (ma_turn_threshold params) s (currentPosition st) st"
  have o: "fst ?t = 0" using turn_check_order[of "ma_turn_threshold params" s "currentPosition st" st] assms by auto
  have p: "currentPosition (snd ?t) = 0" using assms by (simp add: gs_turn_fields)
  show ?thesis
    using gs_signals_flat[OF p, of params i "ask - bid \<ge> HIGH_SPREAD_THRESHOLD" "0.5 * (bid + ask)" s "fst ?t"]
    by (simp add: gs_decide_def Let_def split_beta o)
qed

lemma gs_process_order_fields:
  "midPrices (gs_process_order oq bid ask st) = midPrices st"
  "waiting_for_signal (gs_process_order oq bid ask st) = waiting_for_signal st"
  "prev_in_high_spread (gs_process_order oq bid ask st) = prev_in_high_spread st"
  "in_position (gs_process_order oq bid ask st) = in_position st"
  by (simp_all add: gs_process_order_def Let_def)

lemma gs_process_order_zero: "gs_process_order 0 bid ask st = st"
  by (simp add: gs_process_order_def)

lemma gs_process_order_close:
  "currentPosition (gs_process_order (- currentPosition st) bid ask st) = 0"
  by (simp add: gs_process_order_def Let_def position_limit_def)

lemma gs_process_order_bound:
  "\<bar>currentPosition st\<bar> \<le> position_limit \<Longrightarrow>
   \<bar>currentPosition (gs_process_order oq bid ask st)\<bar> \<le> position_limit"
  by (auto simp: gs_process_order_def Let_def position_limit_def)

lemma gs_store_fields:
  "length (midPrices (gs_store priceData i st)) = length (midPrices st)"
  "currentPosition (gs_store priceData i st) = currentPosition st"
  "waiting_for_signal (gs_store priceData i st) = waiting_for_signal st"
  "prev_in_high_spread (gs_store priceData i st) = prev_in_high_spread st"
  "cash (gs_store priceData i st) = cash st"
  "totalFees (gs_store priceData i st) = totalFees st"
  by (simp_all add: gs_store_def)

lemma gs_tick_skip:
  "computeRollingAverage (midPrices (gs_store priceData i st)) (int i) (short_window params) = Some NaN \<Longrightarrow>
   gs_tick params priceData i st = gs_store priceData i st"
  by (simp add: gs_tick_def Let_def)

lemma gs_tick_Num:
  "computeRollingAverage (midPrices (gs_store priceData i st)) (int i) (short_window params) = Some (Num s) \<Longrightarrow>
   gs_tick params priceData i st =
     gs_process_order
       (fst (gs_decide params (int i) (Bid (priceData ! i)) (Ask (priceData ! i)) s (gs_store priceData i st)))
       (Bid (priceData ! i)) (Ask (priceData ! i))
       (snd (gs_decide params (int i) (Bid (priceData ! i)) (Ask (priceData ! i)) s (gs_store priceData i st)))"
  by (simp add: gs_tick_def Let_def split_beta)

lemma gs_tick_cases:
  assumes "i < length priceData" and "length (midPrices st) = length priceData"
  obtains
    (skip) "short_window params = 0 \<or> int i + 1 < short_window params"
           "gs_tick params priceData i st = gs_store priceData i st"
  | (run) s where "short_window params \<noteq> 0" "short_window params \<le> int i + 1"
           "computeRollingAverage (midPrices (gs_store priceData i st)) (int i) (short_window params) = Some (Num s)"
proof (cases "short_window params = 0 \<or> int i + 1 < short_window params")
  case True
  then show ?thesis
    using skip gs_tick_skip[OF computeRollingAverage_NaN[OF True]] by blast
next
  case False
  then have w: "short_window params \<noteq> 0" "short_window params \<le> int i + 1" by auto
  have "i < length (midPrices (gs_store priceData i st))"
    using assms by (simp add: gs_store_fields)
  from computeRollingAverage_Num[OF w this] obtain s where
    "computeRollingAverage (midPrices (gs_store priceData i st)) (int i) (short_window params) = Some (Num s)"
    by blast
  with w show ?thesis using run by blast
qed

lemma gs_tick_inv:
  assumes "gs_inv params priceData i st" and "i < length priceData"
  shows "gs_inv params priceData (Suc i) (gs_tick params priceData i st)"
proof -
  have len: "length (midPrices st) = length priceData" using assms by (simp add: gs_inv_def)
  let ?st0 = "gs_store priceData i st"
  let ?bid = "Bid (priceData ! i)" and ?ask = "Ask (priceData ! i)"
  consider
    (skip) "short_window params = 0 \<or> int i + 1 < short_window params"
           "gs_tick params priceData i st = gs_store priceData i st"
  | (run) s where "short_window params \<noteq> 0" "short_window params \<le> int i + 1"
           "computeRollingAverage (midPrices (gs_store priceData i st)) (int i) (short_window params) = Some (Num s)"
    using gs_tick_cases[OF assms(2) len, of params] by blast
  then show ?thesis
  proof cases
    case skip
    then have "currentPosition st = 0" using assms(1) by (auto simp: gs_inv_def)
    then show ?thesis using skip len by (simp add: gs_inv_def gs_store_fields)
  next
    case (run s)
    let ?D = "gs_decide params (int i) ?bid ?ask s ?st0"
    have tick: "gs_tick params priceData i st = gs_process_order (fst ?D) ?bid ?ask (snd ?D)"
      using gs_tick_Num[OF run(3)] .
    have len': "length (midPrices (gs_tick params priceData i st)) = length priceData"
      by (simp add: tick gs_process_order_fields gs_decide_fields gs_store_fields len)
    have w': "short_window params \<noteq> 0 \<and> short_window params \<le> int (Suc i)"
      using run by simp
    have rest: "currentPosition (gs_tick params priceData i st) \<noteq> 0 \<longrightarrow>
        \<not> waiting_for_signal (gs_tick params priceData i st) \<and>
        \<not> prev_in_high_spread (gs_tick params priceData i st)"
    proof (cases "currentPosition st = 0")
      case True
      then have z: "currentPosition ?st0 = 0" by (simp add: gs_store_fields)
      from gs_decide_flat[OF z, of params "int i" ?bid ?ask s]
      show ?thesis
        by (auto simp: tick gs_process_order_zero gs_process_order_fields gs_decide_fields z)
    next
      case False
      then have nz: "currentPosition ?st0 \<noteq> 0" by (simp add: gs_store_fields)
      have quiet: "\<not> waiting_for_signal ?st0" "\<not> prev_in_high_spread ?st0"
        using assms(1) False by (simp_all add: gs_inv_def gs_store_fields)
      show ?thesis
      proof (cases "?ask - ?bid \<ge> HIGH_SPREAD_THRESHOLD")
        case True
        have "fst ?D = - currentPosition (snd ?D)"
          using gs_decide_hs(1)[OF True nz] by (simp add: gs_decide_fields)
        then show ?thesis
          by (simp add: tick gs_process_order_close)
      next
        case hs: False
        from gs_decide_quiet[OF hs nz quiet, of params "int i" s]
        have "fst ?D = 0 \<or> fst ?D = - currentPosition (snd ?D)"
          and nw: "\<not> waiting_for_signal (snd ?D)"
          by (simp_all add: gs_decide_fields)
        then show ?thesis
          using hs
          by (auto simp: tick gs_process_order_close gs_process_order_zero gs_process_order_fields
                gs_decide_fields)
      qed
    qed
    show ?thesis
      using len' w' rest by (simp add: gs_inv_def)
  qed
qed

lemma gs_loop_inv:
  "n \<le> length priceData \<Longrightarrow> gs_inv params priceData n (gs_loop params priceData n)"
proof (induction n)
  case 0
  show ?case by (simp add: gs_loop_0 gs_inv_def gs_init_def)
next
  case (Suc n)
  then show ?case by (simp add: gs_loop_Suc gs_tick_inv)
qed

lemma gs_tick_fields_general:
  assumes "i < length priceData" and "length (midPrices st) = length priceData"
  shows "length (midPrices (gs_tick params priceData i st)) = length priceData"
proof -
  consider
    (skip) "gs_tick params priceData i st = gs_store priceData i st"
  | (run) s where
      "computeRollingAverage (midPrices (gs_store priceData i st)) (int i) (short_window params) = Some (Num s)"
    using gs_tick_cases[OF assms, of params] by blast
  then show ?thesis
  proof cases
    case skip
    then show ?thesis by (simp add: gs_store_fields assms)
  next
    case (run s)
    show ?thesis
      by (simp add: gs_tick_Num[OF run] gs_process_order_fields gs_decide_fields gs_store_fields assms)
  qed
qed

lemma gs_loop_length:
  "n \<le> length priceData \<Longrightarrow> length (midPrices (gs_loop params priceData n)) = length priceData"
  using gs_loop_inv[of n priceData params] by (simp add: gs_inv_def)

lemma gs_tick_pos_bound:
  assumes "i < length priceData" and "length (midPrices st) = length priceData"
    and "\<bar>currentPosition st\<bar> \<le> position_limit"
  shows "\<bar>currentPosition (gs_tick params priceData i st)\<bar> \<le> position_limit"
proof -
  consider
    (skip) "gs_tick params priceData i st = gs_store priceData i st"
  | (run) s where
      "computeRollingAverage (midPrices (gs_store priceData i st)) (int i) (short_window params) = Some (Num s)"
    using gs_tick_cases[OF assms(1,2), of params] by blast
  then show ?thesis
  proof cases
    case skip
    then show ?thesis by (simp add: gs_store_fields assms)
  next
    case (run s)
    show ?thesis
      unfolding gs_tick_Num[OF run]
      by (rule gs_process_order_bound) (simp add: gs_decide_fields gs_store_fields assms)
  qed
qed

lemma gs_loop_pos_bound:
  "n \<le> length priceData \<Longrightarrow> \<bar>currentPosition (gs_loop params priceData n)\<bar> \<le> position_limit"
proof (induction n)
  case 0
  show ?case by (simp add: gs_loop_0 gs_init_def position_limit_def)
next
  case (Suc n)
  then show ?case by (simp add: gs_loop_Suc gs_tick_pos_bound gs_loop_length)
qed

lemma gs_final_close_pos: "currentPosition (gs_final_close priceData st) = 0"
  by (simp add: gs_final_close_def Let_def)

subsection \<open>The ledger and the fees\<close>

lemma limit_order_breach:
  "\<bar>p\<bar> \<le> POSITION_LIMIT \<Longrightarrow> \<bar>p + oq\<bar> > POSITION_LIMIT \<Longrightarrow> limit_order p oq = 0"
  by (simp add: limit_order_def Let_def POSITION_LIMIT_def) linarith

lemma bt_fill_no_order: "limit_order (pos st) oq = 0 \<Longrightarrow> bt_fill oq b a st = st"
  by (simp add: bt_fill_def Let_def)

lemma gs_process_order_breach:
  assumes "\<bar>currentPosition st\<bar> \<le> position_limit"
    and "\<bar>currentPosition st + oq\<bar> > position_limit"
  shows "gs_process_order oq bid ask st = st"
proof (cases "oq > 0")
  case True
  with assms have "currentPosition st + oq > position_limit" by linarith
  with True show ?thesis by (simp add: gs_process_order_def Let_def)
next
  case False
  with assms have "oq < 0" "currentPosition st + oq < - position_limit" by linarith+
  then show ?thesis by (simp add: gs_process_order_def Let_def)
qed

lemma gs_process_order_fees_nonneg:
  assumes "0 \<le> bid" and "0 \<le> ask"
  shows "totalFees st \<le> totalFees (gs_process_order oq bid ask st)"
  using assms
  by (auto simp: gs_process_order_def Let_def fees_rate_def mult_le_0_iff zero_le_mult_iff)

lemma gs_process_order_no_fill:
  "currentPosition (gs_process_order oq bid ask st) = currentPosition st \<Longrightarrow>
   totalFees (gs_process_order oq bid ask st) = totalFees st"
  by (auto simp: gs_process_order_def Let_def split: if_splits)

lemma gs_tick_fees_nonneg:
  assumes "i < length priceData" and "length (midPrices st) = length priceData"
    and "0 \<le> Bid (priceData ! i)" and "0 \<le> Ask (priceData ! i)"
  shows "totalFees st \<le> totalFees (gs_tick params priceData i st)"
proof -
  consider
    (skip) "gs_tick params priceData i st = gs_store priceData i st"
  | (run) s where
      "computeRollingAverage (midPrices (gs_store priceData i st)) (int i) (short_window params) = Some (Num s)"
    using gs_tick_cases[OF assms(1,2), of params] by blast
  then show ?thesis
  proof cases
    case skip
    then show ?thesis by (simp add: gs_store_fields)
  next
    case (run s)
    let ?D = "gs_decide params (int i) (Bid (priceData ! i)) (Ask (priceData ! i)) s (gs_store priceData i st)"
    show ?thesis
      using gs_process_order_fees_nonneg[OF assms(3,4), of "snd ?D" "fst ?D"]
      by (simp add: gs_tick_Num[OF run] gs_decide_fields gs_store_fields)
  qed
qed

lemma gs_tick_no_fill:
  assumes "i < length priceData" and "length (midPrices st) = length priceData"
    and "currentPosition (gs_tick params priceData i st) = currentPosition st"
  shows "totalFees (gs_tick params priceData i st) = totalFees st"
proof -
  consider
    (skip) "gs_tick params priceData i st = gs_store priceData i st"
  | (run) s where
      "computeRollingAverage (midPrices (gs_store priceData i st)) (int i) (short_window params) = Some (Num s)"
    using gs_tick_cases[OF assms(1,2), of params] by blast
  then show ?thesis
  proof cases
    case skip
    then show ?thesis by (simp add: gs_store_fields)
  next
    case (run s)
    let ?D = "gs_decide params (int i) (Bid (priceData ! i)) (Ask (priceData ! i)) s (gs_store priceData i st)"
    show ?thesis
      using gs_process_order_no_fill[of "fst ?D" "Bid (priceData ! i)" "Ask (priceData ! i)" "snd ?D"]
        assms(3)
      by (simp add: gs_tick_Num[OF run] gs_decide_fields gs_store_fields)
  qed
qed

lemma gs_final_close_fees_nonneg:
  assumes "0 \<le> Bid (last priceData)" and "0 \<le> Ask (last priceData)"
  shows "totalFees st \<le> totalFees (gs_final_close priceData st)"
  using assms
  by (auto simp: gs_final_close_def Let_def fees_rate_def mult_le_0_iff zero_le_mult_iff)

lemma gs_final_close_no_fill:
  "currentPosition st = 0 \<Longrightarrow> totalFees (gs_final_close priceData st) = totalFees st"
  by (simp add: gs_final_close_def)

lemma gs_loop_fees_nonneg:
  assumes "\<forall>p \<in> set priceData. 0 \<le> Bid p \<and> 0 \<le> Ask p"
  shows "n \<le> length priceData \<Longrightarrow> 0 \<le> totalFees (gs_loop params priceData n)"
proof (induction n)
  case 0
  show ?case by (simp add: gs_loop_0 gs_init_def)
next
  case (Suc n)
  then have n: "n < length priceData" by simp
  then have p: "0 \<le> Bid (priceData ! n)" "0 \<le> Ask (priceData ! n)" using assms by simp_all
  have len: "length (midPrices (gs_loop params priceData n)) = length priceData"
    using n by (simp add: gs_loop_length)
  from gs_tick_fees_nonneg[OF n len p, of params] n Suc.IH
  show ?case by (simp add: gs_loop_Suc)
qed

subsection \<open>The size of the grid\<close>

lemma length_concat_const:
  "(\<And>x. length (f x) = k) \<Longrightarrow> length (concat (map f xs)) = length xs * k"
  by (induction xs) simp_all

lemma length_build_combos:
  "length (build_combos sw_vals wp_vals hsx_vals mat_vals) =
   length sw_vals * (length wp_vals * (length hsx_vals * length mat_vals))"
  unfolding build_combos_def
  by (simp add: length_concat_const)

lemma length_fuzzIntParam: "length (fuzzIntParam baseVal) = 21"
  by (simp add: fuzzIntParam_def)

lemma length_fuzzDoubleParam: "length (fuzzDoubleParam baseVal) = 21"
  by (simp add: fuzzDoubleParam_def)

subsection \<open>The sweep\<close>






subsection \<open>The small runs, evaluated\<close>

lemmas run_eval =
  bt_tick_def bt_decide_def bt_turn_def bt_signals_def turn_check_def close_state_def
  bt_fill_def limit_order_def update_history_def bt_init_def rolling_mean_def
  mean_of_last_N_def gs_tick_def gs_store_def gs_decide_def gs_signals_def
  gs_process_order_def gs_init_def computeRollingAverage_def sum_loop.simps div_int_def
  HIGH_SPREAD_THRESHOLD_def POSITION_SIZE_def POSITION_LIMIT_def FEES_def fees_rate_def
  position_limit_def Let_def

lemma ex_bt_loop_4:
  "bt_loop 1 1 (1 / 2) 100 ex_ticks ex_bids ex_asks 4 =
     \<lparr>in_position = True, position_is_long = False, current_position_extreme = 12,
      waiting_for_signal = False, high_spread_exit_index = 0, cash = 3992 / 5,
      timestamp = [0, 1, 2, 3], mid_price = [10, 10, 12, 8],
      in_high_spread = [True, False, False, False], last_high_spread_exit_savg = 10,
      pos = - 100\<rparr>"
  by (simp add: bt_loop_def ex_ticks_def ex_bids_def ex_asks_def upt_rec run_eval)

lemma ex_gs_loop_4:
  "gs_loop ex_params ex_series 4 =
     \<lparr>in_position = True, position_is_long = False, current_position_extreme = 9,
      waiting_for_signal = False, high_spread_exit_index = 2, cash = 3992 / 5,
      last_high_spread_exit_short_avg = 10, currentPosition = - 100, totalFees = 8 / 5,
      midPrices = [10, 10, 10, 8, 0], prev_in_high_spread = False\<rparr>"
  by (simp add: gs_loop_def ex_params_def ex_series_def upt_rec run_eval)

lemma ex_gs_loop_3:
  "gs_loop ex_params ex_series 3 =
     \<lparr>in_position = False, position_is_long = False, current_position_extreme = 0,
      waiting_for_signal = True, high_spread_exit_index = 2, cash = 0,
      last_high_spread_exit_short_avg = 10, currentPosition = 0, totalFees = 0,
      midPrices = [10, 10, 10, 0, 0], prev_in_high_spread = False\<rparr>"
  by (simp add: gs_loop_def ex_params_def ex_series_def upt_rec run_eval)

lemma ex_zero_3:
  "gs_loop ex_params ex_series_zero_bid 3 =
     \<lparr>in_position = False, position_is_long = False, current_position_extreme = 0,
      waiting_for_signal = True, high_spread_exit_index = 2, cash = 0,
      last_high_spread_exit_short_avg = 10, currentPosition = 0, totalFees = 0,
      midPrices = [10, 10, 10, 0], prev_in_high_spread = False\<rparr>"
  by (simp add: gs_loop_def ex_params_def ex_series_zero_bid_def upt_rec run_eval)

lemma ex_zero_4:
  "gs_loop ex_params ex_series_zero_bid 4 =
     \<lparr>in_position = True, position_is_long = False, current_position_extreme = 21 / 4,
      waiting_for_signal = False, high_spread_exit_index = 2, cash = 0,
      last_high_spread_exit_short_avg = 10, currentPosition = - 100, totalFees = 0,
      midPrices = [10, 10, 10, 1 / 2], prev_in_high_spread = False\<rparr>"
  by (simp add: gs_loop_def ex_params_def ex_series_zero_bid_def upt_rec run_eval)

lemma ex_negative_4:
  "gs_loop ex_params ex_series_negative_bid 4 =
     \<lparr>in_position = True, position_is_long = False, current_position_extreme = 19 / 4,
      waiting_for_signal = False, high_spread_exit_index = 2, cash = - (499 / 5),
      last_high_spread_exit_short_avg = 10, currentPosition = - 100, totalFees = - (1 / 5),
      midPrices = [10, 10, 10, - (1 / 2)], prev_in_high_spread = False\<rparr>"
  by (simp add: gs_loop_def ex_params_def ex_series_negative_bid_def upt_rec run_eval)

lemma ex_open_lengths:
  "length ex_open_ticks = 4" "length ex_open_bids = 4" "length ex_open_asks = 4"
  "length ex_open_series = 4"
  by (simp_all add: ex_open_ticks_def ex_open_bids_def ex_open_asks_def ex_open_series_def)

lemma ex_bt_loop_open:
  "bt_loop 1 1 (1 / 2) 100 ex_open_ticks ex_open_bids ex_open_asks 4 =
     \<lparr>in_position = True, position_is_long = False, current_position_extreme = 12,
      waiting_for_signal = False, high_spread_exit_index = 0, cash = 3992 / 5,
      timestamp = [0, 1, 2, 3], mid_price = [10, 10, 12, 8],
      in_high_spread = [True, False, False, False], last_high_spread_exit_savg = 10,
      pos = - 100\<rparr>"
  by (simp add: bt_loop_def ex_open_ticks_def ex_open_bids_def ex_open_asks_def upt_rec run_eval)

lemma ex_gs_loop_open:
  "gs_loop ex_params ex_open_series 4 =
     \<lparr>in_position = True, position_is_long = False, current_position_extreme = 9,
      waiting_for_signal = False, high_spread_exit_index = 2, cash = 3992 / 5,
      last_high_spread_exit_short_avg = 10, currentPosition = - 100, totalFees = 8 / 5,
      midPrices = [10, 10, 10, 8], prev_in_high_spread = False\<rparr>"
  by (simp add: gs_loop_def ex_params_def ex_open_series_def upt_rec run_eval)




section \<open>The claims\<close>

subsection \<open>Position bound\<close>

text \<open>
  Claim C3. For every price series, every parameter set and every tick index, the
  position held after processing the tick satisfies \<open>|position| \<le> 100\<close>, the fixed
  position limit. This holds in both engines for the state after any number of ticks of
  the run, and after the final close of the grid-search engine.
\<close>

theorem position_within_limit:
  assumes "n \<le> length ticks" and "m \<le> length priceData"
  shows "\<bar>pos (bt_loop sw wp hsx mat ticks bids asks n)\<bar> \<le> 100 \<and>
         \<bar>currentPosition (gs_loop params priceData m)\<bar> \<le> 100 \<and>
         \<bar>currentPosition (gs_final_close priceData
              (gs_loop params priceData (length priceData)))\<bar> \<le> 100"
  using bt_loop_pos_bound[of sw wp hsx mat ticks bids asks n]
    gs_loop_pos_bound[OF assms(2), of params]
  by (simp add: POSITION_LIMIT_def position_limit_def gs_final_close_pos)

theorem position_within_limit_witness:
  "(4::nat) \<le> length ex_ticks \<and> (4::nat) \<le> length ex_series \<and>
   \<bar>pos (bt_loop 1 1 (1 / 2) 100 ex_ticks ex_bids ex_asks 4)\<bar> \<le> 100 \<and>
   \<bar>currentPosition (gs_loop ex_params ex_series 4)\<bar> \<le> 100 \<and>
   \<bar>currentPosition (gs_final_close ex_series
        (gs_loop ex_params ex_series (length ex_series)))\<bar> \<le> 100"
  using position_within_limit[of 4 ex_ticks 4 ex_series 1 1 "1 / 2" 100 ex_bids ex_asks ex_params]
  by (simp add: ex_ticks_def ex_series_def)

subsection \<open>Empty series\<close>

text \<open>
  Claim C9. For the empty price series \<open>runBacktest\<close> returns a zero result instead of
  failing: \<^verbatim>\<open>Backtester.cpp\<close> returns \<open>0.0\<close> before its loop, and the grid-search
  engine returns zero profit and zero fees.
\<close>

theorem empty_series_zero_pnl:
  "runBacktest sw wp hsx mat [] bids asks = 0 \<and>
   runBacktest_grid [] params = \<lparr>result_pnl = 0, total_fees = 0\<rparr>"
  by (simp add: runBacktest_def runBacktest_grid_def gs_loop_0 gs_final_close_def gs_init_def)

subsection \<open>Rolling mean\<close>

text \<open>
  Claim C6. For every history of mid prices and every window size \<open>w > 0\<close> the rolling
  mean query is \<open>NaN\<close> when the history has fewer than \<open>w\<close> elements, and otherwise
  the sum of exactly the last \<open>w\<close> elements divided by \<open>w\<close>. For
  \<^verbatim>\<open>Backtester.cpp\<close> the history is the vector \<open>mid_price\<close>; for
  \<open>computeRollingAverage\<close> it is \<open>midPrices[0 .. endIndex]\<close>, the first
  \<open>endIndex + 1\<close> elements of the vector.
\<close>

theorem rolling_mean_query:
  assumes "0 < w" and "e < length mids"
  shows "rolling_mean history w =
           (if int (length history) < w then NaN
            else Num (sum_list (drop (length history - nat w) history) / real_of_int w)) \<and>
         computeRollingAverage mids (int e) w =
           Some (if int (length (take (Suc e) mids)) < w then NaN
                 else Num (sum_list (drop (length (take (Suc e) mids) - nat w) (take (Suc e) mids))
                            / real_of_int w))"
  using rolling_mean_eq[OF assms(1)] computeRollingAverage_eq[OF assms] by simp

theorem rolling_mean_query_witness:
  "(0::int) < 2 \<and> (3::nat) < length [1, 2, 3, 4, 0, 0 :: real] \<and>
   rolling_mean [1, 2, 3, 4] 2 = Num (7 / 2) \<and>
   computeRollingAverage [1, 2, 3, 4, 0, 0] 3 2 = Some (Num (7 / 2)) \<and>
   rolling_mean [1, 2, 3, 4] 5 = NaN \<and>
   computeRollingAverage [1, 2, 3, 4, 0, 0] 3 5 = Some NaN"
  using rolling_mean_query[of 2 3 "[1, 2, 3, 4, 0, 0]" "[1, 2, 3, 4]"]
    rolling_mean_query[of 5 3 "[1, 2, 3, 4, 0, 0]" "[1, 2, 3, 4]"]
  by simp

subsection \<open>Forced close on high spread\<close>

text \<open>
  Claim C1. On each tick of \<open>runBacktest\<close>, whenever the spread of the tick is at least
  1.3 and the position is not zero, the order of the tick is the negation of the position
  and the machine becomes flat (neither in a position nor waiting for a signal), whatever
  the turn check, the detection of a high-spread exit and the entry check computed on the
  same tick. In the grid-search engine the close is a separate last \<open>if\<close>. In
  \<^verbatim>\<open>Backtester.cpp\<close> it is the last branch of an \<open>else if\<close> chain whose two earlier
  branches both require a tick outside high spread, so it is taken on every such tick as
  well. The order is filled in full, and the position after the tick is 0.
\<close>

theorem forced_close_on_high_spread:
  assumes "i < length ticks" and "length bids = length ticks" and "length asks = length ticks"
    and "asks ! i - bids ! i \<ge> HIGH_SPREAD_THRESHOLD"
    and "pos (bt_loop sw wp hsx mat ticks bids asks i) \<noteq> 0"
    and "j < length priceData"
    and "Ask (priceData ! j) - Bid (priceData ! j) \<ge> HIGH_SPREAD_THRESHOLD"
    and "currentPosition (gs_loop params priceData j) \<noteq> 0"
  shows "(let st = bt_loop sw wp hsx mat ticks bids asks i;
              d = bt_decide sw wp hsx mat (bids ! i) (asks ! i) st
          in fst d = - pos st \<and> \<not> in_position (snd d) \<and> \<not> waiting_for_signal (snd d) \<and>
             pos (bt_loop sw wp hsx mat ticks bids asks (Suc i)) = 0) \<and>
         (let st = gs_loop params priceData j;
              st0 = gs_store priceData j st
          in \<exists>short_avg.
               computeRollingAverage (midPrices st0) (int j) (short_window params)
                 = Some (Num short_avg) \<and>
               (let d = gs_decide params (int j) (Bid (priceData ! j)) (Ask (priceData ! j))
                          short_avg st0
                in fst d = - currentPosition st \<and> \<not> in_position (snd d) \<and>
                   \<not> waiting_for_signal (snd d)) \<and>
               currentPosition (gs_loop params priceData (Suc j)) = 0)"
proof -
  let ?st = "bt_loop sw wp hsx mat ticks bids asks i"
  let ?d = "bt_decide sw wp hsx mat (bids ! i) (asks ! i) ?st"
  have nw: "\<not> waiting_for_signal ?st"
    using bt_loop_inv[of sw wp hsx mat ticks bids asks i] assms(5) by (simp add: bt_inv_def)
  have d: "fst ?d = - pos ?st" "\<not> in_position (snd ?d)" "\<not> waiting_for_signal (snd ?d)"
    using bt_decide_hs[OF assms(4,5)] nw by simp_all
  have p: "pos (bt_loop sw wp hsx mat ticks bids asks (Suc i)) = 0"
    by (simp add: bt_loop_Suc bt_tick_pos d(1) limit_order_close)
  let ?g = "gs_loop params priceData j"
  let ?h = "gs_store priceData j ?g"
  let ?bid = "Bid (priceData ! j)" and ?ask = "Ask (priceData ! j)"
  have inv: "gs_inv params priceData j ?g"
    using assms(6) by (simp add: gs_loop_inv)
  then have w: "short_window params \<noteq> 0" "short_window params \<le> int j + 1"
    and gq: "\<not> waiting_for_signal ?h"
    and len: "j < length (midPrices ?h)"
    using assms(6,8) by (simp_all add: gs_inv_def gs_store_fields)
  from computeRollingAverage_Num[OF w len] obtain s where
    s: "computeRollingAverage (midPrices ?h) (int j) (short_window params) = Some (Num s)"
    by blast
  let ?e = "gs_decide params (int j) ?bid ?ask s ?h"
  have nz: "currentPosition ?h \<noteq> 0" using assms(8) by (simp add: gs_store_fields)
  have e: "fst ?e = - currentPosition ?g" "\<not> in_position (snd ?e)"
      "\<not> waiting_for_signal (snd ?e)"
    using gs_decide_hs[OF assms(7) nz, of params "int j" s] gq by (simp_all add: gs_store_fields)
  have "fst ?e = - currentPosition (snd ?e)"
    using e(1) by (simp add: gs_decide_fields gs_store_fields)
  then have q: "currentPosition (gs_loop params priceData (Suc j)) = 0"
    by (simp add: gs_loop_Suc gs_tick_Num[OF s] gs_process_order_close)
  show ?thesis
    using d p s e q by (auto simp: Let_def)
qed

theorem forced_close_on_high_spread_witness:
  "(4::nat) < length ex_ticks \<and> length ex_bids = length ex_ticks \<and>
   length ex_asks = length ex_ticks \<and>
   ex_asks ! 4 - ex_bids ! 4 \<ge> HIGH_SPREAD_THRESHOLD \<and>
   pos (bt_loop 1 1 (1 / 2) 100 ex_ticks ex_bids ex_asks 4) = - 100 \<and>
   (4::nat) < length ex_series \<and>
   Ask (ex_series ! 4) - Bid (ex_series ! 4) \<ge> HIGH_SPREAD_THRESHOLD \<and>
   currentPosition (gs_loop ex_params ex_series 4) = - 100 \<and>
   fst (bt_decide 1 1 (1 / 2) 100 (ex_bids ! 4) (ex_asks ! 4)
         (bt_loop 1 1 (1 / 2) 100 ex_ticks ex_bids ex_asks 4)) = 100 \<and>
   pos (bt_loop 1 1 (1 / 2) 100 ex_ticks ex_bids ex_asks 5) = 0 \<and>
   currentPosition (gs_loop ex_params ex_series 5) = 0"
proof -
  have h: "(4::nat) < length ex_ticks" "length ex_bids = length ex_ticks"
    "length ex_asks = length ex_ticks"
    "ex_asks ! 4 - ex_bids ! 4 \<ge> HIGH_SPREAD_THRESHOLD"
    "(4::nat) < length ex_series"
    "Ask (ex_series ! 4) - Bid (ex_series ! 4) \<ge> HIGH_SPREAD_THRESHOLD"
    by (simp_all add: ex_ticks_def ex_bids_def ex_asks_def ex_series_def HIGH_SPREAD_THRESHOLD_def)
  have p: "pos (bt_loop 1 1 (1 / 2) 100 ex_ticks ex_bids ex_asks 4) = - 100"
    "currentPosition (gs_loop ex_params ex_series 4) = - 100"
    by (simp_all add: ex_bt_loop_4 ex_gs_loop_4)
  have nz: "pos (bt_loop 1 1 (1 / 2) 100 ex_ticks ex_bids ex_asks 4) \<noteq> 0"
    "currentPosition (gs_loop ex_params ex_series 4) \<noteq> 0"
    using p by simp_all
  show ?thesis
    using forced_close_on_high_spread[OF h(1-4) nz(1) h(5,6) nz(2)] h p
    by (auto simp: Let_def)
qed

subsection \<open>Final close\<close>

text \<open>
  Claim C2. For every non-empty price series and every parameter set the run ends flat:
  whatever the strategy state after the loop, a residual long position is sold at the bid
  of the last tick and a residual short position is bought back at its ask. The
  grid-search engine sets the position to 0; \<^verbatim>\<open>Backtester.cpp\<close> settles the whole
  position into the cash that it returns.
\<close>

theorem final_position_closed:
  assumes "ticks \<noteq> []" and "length bids = length ticks" and "length asks = length ticks"
    and "priceData \<noteq> []"
  shows "runBacktest sw wp hsx mat ticks bids asks =
           (let st = bt_loop sw wp hsx mat ticks bids asks (length ticks) in
            cash st +
              (if pos st > 0 then last bids * real_of_int (pos st) * (1 - FEES)
               else if pos st < 0 then - (last asks * real_of_int (- pos st) * (1 + FEES))
               else 0)) \<and>
         currentPosition (gs_final_close priceData gst) = 0 \<and>
         cash (gs_final_close priceData gst) =
           cash gst +
             (if currentPosition gst > 0
              then Bid (last priceData) * real_of_int (currentPosition gst) * (1 - fees_rate)
              else if currentPosition gst < 0
              then - (Ask (last priceData) * real_of_int (- currentPosition gst) * (1 + fees_rate))
              else 0) \<and>
         result_pnl (runBacktest_grid priceData params) =
           cash (gs_final_close priceData (gs_loop params priceData (length priceData)))"
proof -
  have "bids \<noteq> []" "asks \<noteq> []" using assms by auto
  then have "bids ! (length ticks - 1) = last bids" "asks ! (length ticks - 1) = last asks"
    using assms by (simp_all add: last_conv_nth)
  then show ?thesis
    using assms(1)
    by (simp add: runBacktest_def bt_flatten_def gs_final_close_def runBacktest_grid_def Let_def)
qed

theorem final_position_closed_witness:
  "ex_open_ticks \<noteq> [] \<and> length ex_open_bids = length ex_open_ticks \<and>
   length ex_open_asks = length ex_open_ticks \<and> ex_open_series \<noteq> [] \<and>
   pos (bt_loop 1 1 (1 / 2) 100 ex_open_ticks ex_open_bids ex_open_asks 4) = - 100 \<and>
   runBacktest 1 1 (1 / 2) 100 ex_open_ticks ex_open_bids ex_open_asks = - (16 / 5) \<and>
   currentPosition (gs_loop ex_params ex_open_series 4) = - 100 \<and>
   currentPosition (gs_final_close ex_open_series (gs_loop ex_params ex_open_series 4)) = 0 \<and>
   cash (gs_final_close ex_open_series (gs_loop ex_params ex_open_series 4)) = - (16 / 5) \<and>
   result_pnl (runBacktest_grid ex_open_series ex_params) = - (16 / 5)"
proof -
  have h: "ex_open_ticks \<noteq> []" "length ex_open_bids = length ex_open_ticks"
    "length ex_open_asks = length ex_open_ticks" "ex_open_series \<noteq> []"
    by (simp_all add: ex_open_ticks_def ex_open_bids_def ex_open_asks_def ex_open_series_def)
  have l: "last ex_open_bids = 8" "last ex_open_asks = 8"
    "last ex_open_series = \<lparr>Bid = 8, Ask = 8\<rparr>"
    by (simp_all add: ex_open_bids_def ex_open_asks_def ex_open_series_def)
  show ?thesis
    using final_position_closed[OF h, of 1 1 "1 / 2" 100
        "gs_loop ex_params ex_open_series 4" ex_params] h
    by (simp add: ex_open_lengths ex_bt_loop_open ex_gs_loop_open l FEES_def fees_rate_def)
qed

subsection \<open>Orders beyond the limit\<close>

text \<open>
  Claim C4. An order that would push \<open>|position + order|\<close> beyond the limit of 100 is
  discarded as a whole, never filled in part: the state after the ledger step is the
  state before it, so cash, fees and position are unchanged. The position before the step
  is within the limit, as it is on every tick of a run (claim C3).
\<close>

theorem breaching_order_discarded:
  assumes "\<bar>pos st\<bar> \<le> POSITION_LIMIT" and "\<bar>pos st + order_quantity\<bar> > POSITION_LIMIT"
    and "\<bar>currentPosition gst\<bar> \<le> position_limit"
    and "\<bar>currentPosition gst + oq\<bar> > position_limit"
  shows "limit_order (pos st) order_quantity = 0 \<and>
         bt_fill order_quantity b a st = st \<and>
         gs_process_order oq bid ask gst = gst"
  using limit_order_breach[OF assms(1,2)] gs_process_order_breach[OF assms(3,4)]
  by (simp add: bt_fill_no_order)

theorem breaching_order_discarded_witness:
  "\<bar>pos (bt_init\<lparr>pos := 100\<rparr>)\<bar> \<le> POSITION_LIMIT \<and>
   \<bar>pos (bt_init\<lparr>pos := 100\<rparr>) + 100\<bar> > POSITION_LIMIT \<and>
   \<bar>currentPosition (gs_init ex_series\<lparr>currentPosition := - 100\<rparr>)\<bar> \<le> position_limit \<and>
   \<bar>currentPosition (gs_init ex_series\<lparr>currentPosition := - 100\<rparr>) + (- 100)\<bar> > position_limit \<and>
   limit_order 100 100 = 0 \<and>
   bt_fill 100 7 9 (bt_init\<lparr>pos := 100\<rparr>) = bt_init\<lparr>pos := 100\<rparr> \<and>
   gs_process_order (- 100) 7 9 (gs_init ex_series\<lparr>currentPosition := - 100\<rparr>) =
     gs_init ex_series\<lparr>currentPosition := - 100\<rparr>"
  using breaching_order_discarded[of "bt_init\<lparr>pos := 100\<rparr>" 100
      "gs_init ex_series\<lparr>currentPosition := - 100\<rparr>" "- 100" 7 9 7 9]
  by (simp add: POSITION_LIMIT_def position_limit_def)

subsection \<open>Fees\<close>

text \<open>
  Claim C7, as stated for every run: the total fees start at 0, never decrease from tick
  to tick, increase exactly on the ticks where a non-zero order is filled, and are never
  negative. The fee of a fill is \<open>price * quantity * 0.002\<close>, whatever the price. The
  short entry at tick 3 of \<open>ex_series_negative_bid\<close> is filled at the bid \<open>-1\<close> and takes
  the total fees from 0 to \<open>-0.2\<close>: they decrease and are negative. The same entry on
  \<open>ex_series_zero_bid\<close> is filled at the bid 0 and leaves the total fees at 0: a
  non-zero order is filled and the fees do not increase.
\<close>

theorem fees_not_monotone_counterexample:
  "totalFees (gs_loop ex_params ex_series_negative_bid 4) < 0 \<and>
   totalFees (gs_loop ex_params ex_series_negative_bid 4)
     < totalFees (gs_loop ex_params ex_series_negative_bid 0) \<and>
   currentPosition (gs_loop ex_params ex_series_zero_bid 4)
     \<noteq> currentPosition (gs_loop ex_params ex_series_zero_bid 3) \<and>
   \<not> totalFees (gs_loop ex_params ex_series_zero_bid 3)
       < totalFees (gs_loop ex_params ex_series_zero_bid 4)"
  by (simp add: ex_negative_4 ex_zero_3 ex_zero_4 gs_loop_0 gs_init_def)

text \<open>
  Claim C7, amended: for a series whose bids and asks are not negative, the total fees
  start at 0, are never negative, do not decrease from a tick to the next, and increase
  only on a tick where the position changes, that is, where a non-zero order is filled;
  the same holds for the final close. That every fill increases them is not part of the
  amended claim: a fill at price 0 adds nothing, and in the doubles of the program
  neither does a fee too small for the running total. The amended claim uses only what
  rounding keeps: a product of non-negative numbers is not negative, and adding a
  non-negative number does not lower a sum.
\<close>

theorem fees_monotone_for_nonnegative_prices:
  assumes "\<forall>p \<in> set priceData. 0 \<le> Bid p \<and> 0 \<le> Ask p" and "n < length priceData"
  shows "totalFees (gs_loop params priceData 0) = 0 \<and>
         0 \<le> totalFees (gs_loop params priceData n) \<and>
         totalFees (gs_loop params priceData n) \<le> totalFees (gs_loop params priceData (Suc n)) \<and>
         (totalFees (gs_loop params priceData n) < totalFees (gs_loop params priceData (Suc n)) \<longrightarrow>
            currentPosition (gs_loop params priceData (Suc n)) \<noteq>
            currentPosition (gs_loop params priceData n)) \<and>
         (let st = gs_loop params priceData (length priceData);
              fin = gs_final_close priceData st
          in 0 \<le> totalFees st \<and> totalFees st \<le> totalFees fin \<and>
             (totalFees st < totalFees fin \<longrightarrow> currentPosition st \<noteq> 0) \<and>
             total_fees (runBacktest_grid priceData params) = totalFees fin \<and>
             0 \<le> totalFees fin)"
proof -
  let ?st = "gs_loop params priceData (length priceData)"
  have ne: "priceData \<noteq> []" using assms(2) by auto
  have pn: "0 \<le> Bid (priceData ! n)" "0 \<le> Ask (priceData ! n)" using assms by simp_all
  have pl: "0 \<le> Bid (last priceData)" "0 \<le> Ask (last priceData)" using assms(1) ne by simp_all
  have len: "length (midPrices (gs_loop params priceData n)) = length priceData"
    using assms(2) by (simp add: gs_loop_length)
  have a: "0 \<le> totalFees (gs_loop params priceData n)" and b: "0 \<le> totalFees ?st"
    using gs_loop_fees_nonneg[OF assms(1)] assms(2) by simp_all
  have z: "totalFees (gs_loop params priceData 0) = 0" by (simp add: gs_loop_0 gs_init_def)
  have m: "totalFees (gs_loop params priceData n) \<le> totalFees (gs_loop params priceData (Suc n))"
    using gs_tick_fees_nonneg[OF assms(2) len pn, of params] by (simp add: gs_loop_Suc)
  have o: "totalFees (gs_loop params priceData n) < totalFees (gs_loop params priceData (Suc n)) \<longrightarrow>
            currentPosition (gs_loop params priceData (Suc n)) \<noteq>
            currentPosition (gs_loop params priceData n)"
    using gs_tick_no_fill[OF assms(2) len, of params] by (auto simp: gs_loop_Suc)
  have f: "totalFees ?st \<le> totalFees (gs_final_close priceData ?st)"
    using gs_final_close_fees_nonneg[OF pl] .
  have g: "totalFees ?st < totalFees (gs_final_close priceData ?st) \<longrightarrow> currentPosition ?st \<noteq> 0"
    using gs_final_close_no_fill[of ?st priceData] by auto
  show ?thesis
    using z a b m o f g by (simp add: Let_def runBacktest_grid_def)
qed

theorem fees_monotone_for_nonnegative_prices_witness:
  "list_all (\<lambda>p. 0 \<le> Bid p \<and> 0 \<le> Ask p) ex_series \<and> (3::nat) < length ex_series \<and>
   totalFees (gs_loop ex_params ex_series 0) = 0 \<and>
   totalFees (gs_loop ex_params ex_series 3) = 0 \<and>
   totalFees (gs_loop ex_params ex_series (Suc 3)) = 8 / 5 \<and>
   totalFees (gs_loop ex_params ex_series 3) < totalFees (gs_loop ex_params ex_series (Suc 3)) \<and>
   currentPosition (gs_loop ex_params ex_series (Suc 3)) \<noteq>
     currentPosition (gs_loop ex_params ex_series 3)"
proof -
  have h: "\<forall>p \<in> set ex_series. 0 \<le> Bid p \<and> 0 \<le> Ask p" "(3::nat) < length ex_series"
    by (simp_all add: ex_series_def)
  have e: "totalFees (gs_loop ex_params ex_series 3) = 0"
    "totalFees (gs_loop ex_params ex_series (Suc 3)) = 8 / 5"
    using ex_gs_loop_3 ex_gs_loop_4 by simp_all
  show ?thesis
    using fees_monotone_for_nonnegative_prices[OF h, of ex_params] h e
    by (simp add: list_all_iff)
qed

subsection \<open>The sweep and its ranking\<close>




subsection \<open>Size of the parameter grid\<close>

text \<open>
  Claim C8. The fuzzer makes exactly 21 candidate values (from \<open>-10\<close> to \<open>+10\<close> per cent
  in steps of one) for each of the four parameters, whatever the base values, and the
  number of combinations in the grid is the product of the four counts,
  \<open>21 ^ 4 = 194481\<close>.
\<close>

theorem grid_cardinality:
  "length (fuzzIntParam baseSW) = 21 \<and> length (fuzzIntParam baseWP) = 21 \<and>
   length (fuzzDoubleParam baseHSX) = 21 \<and> length (fuzzDoubleParam baseMAT) = 21 \<and>
   length (build_combos (fuzzIntParam baseSW) (fuzzIntParam baseWP)
             (fuzzDoubleParam baseHSX) (fuzzDoubleParam baseMAT)) = 21 * 21 * 21 * 21 \<and>
   length g_combos = 194481"
  by (simp add: length_build_combos length_fuzzIntParam length_fuzzDoubleParam g_combos_def)

subsection \<open>The short average of a tick\<close>



end
